theory Spec2Isabelle
  imports Complex_Main "HOL-Library.Product_Lexorder" "HOL-Library.Multiset"
begin

section \<open>Expense tracker: the HTTP API over the user and expense tables\<close>

text \<open>
  The backend is one Express application whose handlers validate the fields of a
  request, run one or two SQL statements, and answer with the JSON envelope
  \<open>{status, message?, data?}\<close>. Each handler is embedded as a function from the
  table contents and the request fields to the response and the new table contents.

  Conventions of the embedding:
  \<^item> a string is the list of the bytes of its UTF-8 encoding;
  \<^item> a field of \<open>req.query\<close> or \<open>req.params\<close>, and a field of \<open>req.body\<close> sent
    form-encoded, is absent (\<open>None\<close>) or a string. A JSON body can carry other values;
    the login handler, where such a value changes the outcome, takes them;
  \<^item> a JavaScript number is a double: the rational it denotes, \<open>NaN\<close> or an infinity.
    Results of parsing and of \<open>+\<close> are rounded to the nearest double, ties to even;
    the sign of zero is not kept;
  \<^item> the store is reachable: a statement fails (the handler's \<open>catch\<close> branch) only
    when the store rejects one of its parameters.
\<close>

subsection \<open>Doubles\<close>

datatype jsnum = NaN | Num rat | PosInfinity | NegInfinity

definition isNaN :: "jsnum \<Rightarrow> bool" where
  "isNaN x = (x = NaN)"

text \<open>The number of binary digits of a positive integer.\<close>

function bit_length :: "int \<Rightarrow> int" where
  "bit_length n = (if n \<le> 0 then 0 else 1 + bit_length (n div 2))"
  by pat_completeness auto
termination
  by (relation "measure nat") auto

declare bit_length.simps [simp del]

definition pow2 :: "int \<Rightarrow> rat" where
  "pow2 k = (if 0 \<le> k then 2 ^ nat k else 1 / 2 ^ nat (- k))"

text \<open>For a positive rational \<open>a\<close>, the \<open>e\<close> with \<open>2\<^sup>e \<le> a < 2\<^sup>e\<^sup>+\<^sup>1\<close>.\<close>

definition floor_log2 :: "rat \<Rightarrow> int" where
  "floor_log2 a =
     (let (p, q) = quotient_of a;
          k = bit_length p - bit_length q
      in if pow2 k \<le> a then k else k - 1)"

definition round_half_even :: "rat \<Rightarrow> int" where
  "round_half_even m =
     (let f = \<lfloor>m\<rfloor>; r = m - of_int f
      in if r < 1 / 2 then f else if 1 / 2 < r then f + 1 else if even f then f else f + 1)"

text \<open>
  The double nearest to a rational, ties to even: 53 significant bits, and below
  \<open>2\<^sup>-\<^sup>1\<^sup>0\<^sup>2\<^sup>2\<close> the fixed spacing \<open>2\<^sup>-\<^sup>1\<^sup>0\<^sup>7\<^sup>4\<close> of the subnormal numbers. The upper end of
  the range is left to \<open>double_of_rat\<close>.
\<close>

definition nearest_double :: "rat \<Rightarrow> rat" where
  "nearest_double v =
     (if v = 0 then 0
      else (let a = \<bar>v\<bar>;
                e = max (floor_log2 a) (- 1022);
                ulp = pow2 (e - 52);
                r = of_int (round_half_even (a / ulp)) * ulp
            in if v < 0 then - r else r))"

text \<open>The Number value of a rational: what rounds to \<open>2\<^sup>1\<^sup>0\<^sup>2\<^sup>4\<close> or beyond is an infinity.\<close>

definition double_of_rat :: "rat \<Rightarrow> jsnum" where
  "double_of_rat v =
     (let r = nearest_double v
      in if 2 ^ 1024 \<le> \<bar>r\<bar> then (if v < 0 then NegInfinity else PosInfinity) else Num r)"

text \<open>
  \<open>a + b\<close> on two finite doubles. The amounts that are added come from a numeric
  column, whose range is far inside that of the doubles, so the case of a sum that
  leaves the range is not represented.
\<close>

definition js_add :: "rat \<Rightarrow> rat \<Rightarrow> rat" where
  "js_add a b = nearest_double (a + b)"

subsection \<open>JavaScript primitives used by the handlers\<close>

text \<open>\<open>!field\<close> for a field that is absent or a string: only the empty string is falsy.\<close>

definition falsy :: "string option \<Rightarrow> bool" where
  "falsy f = (case f of None \<Rightarrow> True | Some s \<Rightarrow> s = [])"

text \<open>
  White space and line terminators, which \<open>parseInt\<close> and \<open>parseFloat\<close> skip and the
  class \<open>\s\<close> matches: U+0009 to U+000D, U+0020, U+00A0, U+1680, U+2000 to U+200A,
  U+2028, U+2029, U+202F, U+205F, U+3000 and U+FEFF, in their UTF-8 encodings.
\<close>

definition three_byte_spaces :: "string list" where
  "three_byte_spaces =
     [[CHR 0xE1, CHR 0x9A, CHR 0x80]]
     @ map (\<lambda>b. [CHR 0xE2, CHR 0x80, b])
         [CHR 0x80, CHR 0x81, CHR 0x82, CHR 0x83, CHR 0x84, CHR 0x85, CHR 0x86, CHR 0x87,
          CHR 0x88, CHR 0x89, CHR 0x8A, CHR 0xA8, CHR 0xA9, CHR 0xAF]
     @ [[CHR 0xE2, CHR 0x81, CHR 0x9F], [CHR 0xE3, CHR 0x80, CHR 0x80],
        [CHR 0xEF, CHR 0xBB, CHR 0xBF]]"

text \<open>The number of bytes of the white space character a string starts with, or 0.\<close>

definition space_width :: "string \<Rightarrow> nat" where
  "space_width s =
     (if take 1 s \<in> set (map (\<lambda>c. [c])
                          [CHR 0x09, CHR 0x0A, CHR 0x0B, CHR 0x0C, CHR 0x0D, CHR 0x20]) then 1
      else if take 2 s = [CHR 0xC2, CHR 0xA0] then 2
      else if take 3 s \<in> set three_byte_spaces then 3
      else 0)"

function trim_start :: "string \<Rightarrow> string" where
  "trim_start s = (if space_width s = 0 then s else trim_start (drop (space_width s) s))"
  by pat_completeness auto
termination
proof (relation "measure length")
  show "wf (measure length)"
    by simp
next
  fix s :: string
  assume w: "space_width s \<noteq> 0"
  then have "s \<noteq> []"
    by (auto simp: space_width_def three_byte_spaces_def split: if_splits)
  with w show "(drop (space_width s) s, s) \<in> measure length"
    by simp
qed

declare trim_start.simps [simp del]

definition is_digit :: "char \<Rightarrow> bool" where
  "is_digit c = (c \<in> set ''0123456789'')"

definition is_hex_digit :: "char \<Rightarrow> bool" where
  "is_hex_digit c = (c \<in> set ''0123456789abcdefABCDEF'')"

definition digit_val :: "char \<Rightarrow> int" where
  "digit_val c =
     (case map_of (zip ''0123456789abcdefABCDEF''
                       [0, 1, 2, 3, 4, 5, 6, 7, 8, 9, 10, 11, 12, 13, 14, 15, 10, 11, 12, 13, 14, 15]) c of
        None \<Rightarrow> 0 | Some v \<Rightarrow> v)"

definition digits_val :: "int \<Rightarrow> string \<Rightarrow> int" where
  "digits_val radix ds = foldl (\<lambda>a c. a * radix + digit_val c) 0 ds"

text \<open>A leading \<open>+\<close> or \<open>-\<close>: whether it was a minus, and the rest of the string.\<close>

definition strip_sign :: "string \<Rightarrow> bool \<times> string" where
  "strip_sign s =
     (case s of
        [] \<Rightarrow> (False, [])
      | c # t \<Rightarrow> if c = CHR ''-'' then (True, t) else if c = CHR ''+'' then (False, t) else (False, s))"

text \<open>
  \<open>parseInt(s)\<close> with no radix: leading white space and a sign are skipped, a prefix
  \<open>0x\<close> or \<open>0X\<close> selects radix 16, and the longest run of digits is read; no digit
  gives \<open>NaN\<close>. Whatever follows the digits is ignored. The result is the double of
  the integer read.
\<close>

definition parseInt :: "string \<Rightarrow> jsnum" where
  "parseInt s =
     (let (neg, s2) = strip_sign (trim_start s);
          hex = (take 2 s2 = ''0x'' \<or> take 2 s2 = ''0X'');
          z = (if hex then takeWhile is_hex_digit (drop 2 s2) else takeWhile is_digit s2);
          v = of_int (digits_val (if hex then 16 else 10) z)
      in if z = [] then NaN else double_of_rat (if neg then - v else v))"

text \<open>
  The exponent part of a decimal literal: \<open>e\<close> or \<open>E\<close>, an optional sign and at least
  one digit. Without a digit there is no exponent part and the literal ends before it.
\<close>

definition exponent_part :: "string \<Rightarrow> int" where
  "exponent_part s =
     (case s of
        [] \<Rightarrow> 0
      | c # t \<Rightarrow>
          if c = CHR ''e'' \<or> c = CHR ''E'' then
            (let (neg, t2) = strip_sign t; ds = takeWhile is_digit t2;
                 v = digits_val 10 ds
             in if ds = [] then 0 else if neg then - v else v)
          else 0)"

definition scale10 :: "rat \<Rightarrow> int \<Rightarrow> rat" where
  "scale10 m e = (if 0 \<le> e then m * 10 ^ nat e else m / 10 ^ nat (- e))"

text \<open>
  The longest prefix of an unsigned string that is a decimal literal
  (\<open>digits\<close>, \<open>digits.\<close>, \<open>digits.digits\<close> or \<open>.digits\<close>, then an optional exponent),
  as the rational it denotes; \<open>None\<close> when no prefix is one.
\<close>

definition decimal_prefix :: "string \<Rightarrow> rat option" where
  "decimal_prefix s =
     (let ip = takeWhile is_digit s;
          r1 = dropWhile is_digit s;
          dot = (r1 \<noteq> [] \<and> hd r1 = CHR ''.'');
          fp = (if dot then takeWhile is_digit (tl r1) else []);
          r2 = (if dot then dropWhile is_digit (tl r1) else r1);
          m = of_int (digits_val 10 ip) + of_int (digits_val 10 fp) / 10 ^ length fp
      in if ip = [] \<and> fp = [] then None else Some (scale10 m (exponent_part r2)))"

text \<open>
  \<open>parseFloat(s)\<close>: leading white space is skipped, then an optional sign and either
  \<open>Infinity\<close> or the longest decimal literal, whose value is rounded to a double (an
  infinity when it is out of range, 0 when it is too small); anything else gives
  \<open>NaN\<close>.
\<close>

definition parseFloat :: "string \<Rightarrow> jsnum" where
  "parseFloat s =
     (let (neg, s2) = strip_sign (trim_start s)
      in if take 8 s2 = ''Infinity'' then (if neg then NegInfinity else PosInfinity)
         else (case decimal_prefix s2 of
                 None \<Rightarrow> NaN
               | Some v \<Rightarrow> double_of_rat (if neg then - v else v)))"

text \<open>
  A value of a JSON body: \<open>JObject\<close> stands for any array or object. \<open>typeof\<close> and
  \<open>!v\<close> on such a value.
\<close>

datatype jsvalue = JUndefined | JNull | JBoolean bool | JNumber jsnum | JString string | JObject

definition typeof :: "jsvalue \<Rightarrow> string" where
  "typeof v =
     (case v of JUndefined \<Rightarrow> ''undefined'' | JNull \<Rightarrow> ''object'' | JBoolean b \<Rightarrow> ''boolean''
      | JNumber x \<Rightarrow> ''number'' | JString s \<Rightarrow> ''string'' | JObject \<Rightarrow> ''object'')"

definition falsy_value :: "jsvalue \<Rightarrow> bool" where
  "falsy_value v =
     (case v of JUndefined \<Rightarrow> True | JNull \<Rightarrow> True | JBoolean b \<Rightarrow> \<not> b
      | JNumber x \<Rightarrow> x = NaN \<or> x = Num 0 | JString s \<Rightarrow> s = [] | JObject \<Rightarrow> False)"

subsection \<open>The response envelope\<close>

record user_json =
  uj_id :: nat
  uj_username :: string
  uj_email :: string

record expense_json =
  ej_id :: nat
  ej_userid :: int
  ej_date :: string
  ej_expensename :: string
  ej_amount :: rat
  ej_paymode :: string
  ej_category :: string

text \<open>
  A value held by the \<open>category_totals\<close> object: a number, or the string that \<open>+\<close>
  produces when its left operand is not a number. The characters of such a string
  are not represented; it is never empty.
\<close>

datatype total_value = Number rat | Text

record time_point =
  date_only :: string
  time_of_day :: string
  tp_amount :: rat

record day_total =
  day :: string
  day_total_amount :: rat

record month_total =
  month_num :: nat
  month_name :: string
  month_total_amount :: rat

datatype series =
    time_series_data "time_point list"
  | daily_totals "day_total list"
  | monthly_totals "month_total list"

record report =
  bucket_series :: series
  raw_expenses :: "expense_json list"
  total_expenses :: rat
  category_totals :: "(string \<times> total_value) list"

datatype payload =
    NoData
  | UserData user_json
  | ExpenseData expense_json
  | LimitData rat
  | ReportData report

record response =
  code :: nat
  status :: string
  message :: "string option"
  data :: payload

definition error_response :: "nat \<Rightarrow> string \<Rightarrow> response" where
  "error_response c m = \<lparr>code = c, status = ''error'', message = Some m, data = NoData\<rparr>"

definition success_message :: "nat \<Rightarrow> string \<Rightarrow> response" where
  "success_message c m = \<lparr>code = c, status = ''success'', message = Some m, data = NoData\<rparr>"

definition success_data :: "payload \<Rightarrow> response" where
  "success_data d = \<lparr>code = 200, status = ''success'', message = None, data = d\<rparr>"

subsection \<open>The store\<close>

text \<open>
  Two tables, \<open>register\<close> (the users) and \<open>expenses\<close>, each with an auto-increment
  key. A table is the list of its rows in insertion order. The \<open>date\<close> column keeps a
  calendar date with a time of day; a numeric column keeps the value bound to it.
\<close>

record datetime =
  year :: nat
  month :: nat
  dayofmonth :: nat
  hour :: nat
  minute :: nat
  second :: nat

record user =
  user_id :: nat
  username :: string
  email :: string
  password :: string
  spending_limit :: "rat option"

record expense =
  expense_id :: nat
  userid :: int
  date :: datetime
  expensename :: string
  amount :: rat
  paymode :: string
  category :: string

record db =
  register :: "user list"
  expenses :: "expense list"
  next_user_id :: nat
  next_expense_id :: nat

text \<open>The message of the error a failing statement throws is the store's own.\<close>

definition store_error_message :: string where
  "store_error_message = ''store error''"

text \<open>
  A number bound to a column: the store has no value for \<open>NaN\<close> or an infinity and
  rejects the statement. A number bound to an integer column is a whole number here,
  since it comes from \<open>parseInt\<close>.
\<close>

definition column_number :: "jsnum \<Rightarrow> rat option" where
  "column_number x = (case x of Num r \<Rightarrow> Some r | _ \<Rightarrow> None)"

definition column_integer :: "jsnum \<Rightarrow> int option" where
  "column_integer x = (case x of Num r \<Rightarrow> Some \<lfloor>r\<rfloor> | _ \<Rightarrow> None)"

text \<open>
  \<open>column = ?\<close> for an integer column and a bound number: an infinity equals no
  value of the column.
\<close>

definition equals_param :: "int \<Rightarrow> jsnum \<Rightarrow> bool" where
  "equals_param c p = (p = Num (of_int c))"

text \<open>A value read from a numeric column and passed through \<open>parseFloat\<close>.\<close>

definition read_number :: "rat \<Rightarrow> rat" where
  "read_number r = nearest_double r"

subsection \<open>Spending limit\<close>

text \<open>\<open>GET /limit\<close>.\<close>

definition get_limit :: "db \<Rightarrow> string option \<Rightarrow> response" where
  "get_limit d userid_q =
     (if falsy userid_q then error_response 400 ''User ID is required!''
      else (let userIdNum = parseInt (the userid_q) in
        if isNaN userIdNum then error_response 400 ''Invalid User ID format!''
        else
          (let rows = filter (\<lambda>u. equals_param (int (user_id u)) userIdNum) (register d);
               limit = (case rows of
                          [] \<Rightarrow> 0
                        | result # _ \<Rightarrow>
                            (case spending_limit result of
                               None \<Rightarrow> 0 | Some l \<Rightarrow> read_number l))
           in success_data (LimitData limit))))"


subsection \<open>Conversions made by the store\<close>

text \<open>
  A string compared with a numeric column is converted to a number first: the
  longest numeric prefix after ASCII white space and a sign, or 0 when there is none.
\<close>

definition store_space :: "char \<Rightarrow> bool" where
  "store_space c = (c \<in> set [CHR 0x09, CHR 0x0A, CHR 0x0B, CHR 0x0C, CHR 0x0D, CHR 0x20])"

definition store_number :: "string \<Rightarrow> rat" where
  "store_number s =
     (let (neg, s2) = strip_sign (dropWhile store_space s)
      in case decimal_prefix s2 of
           None \<Rightarrow> 0
         | Some v \<Rightarrow> if neg then - v else v)"

definition id_matches :: "string \<Rightarrow> expense \<Rightarrow> bool" where
  "id_matches expense_id_p e = (of_nat (expense_id e) = store_number expense_id_p)"

definition leap_year :: "nat \<Rightarrow> bool" where
  "leap_year y = (y mod 4 = 0 \<and> (y mod 100 \<noteq> 0 \<or> y mod 400 = 0))"

definition days_in_month :: "nat \<Rightarrow> nat \<Rightarrow> nat" where
  "days_in_month y m =
     (if m = 2 then (if leap_year y then 29 else 28)
      else if m \<in> set [4, 6, 9, 11] then 30
      else 31)"

definition valid_datetime :: "datetime \<Rightarrow> bool" where
  "valid_datetime dt =
     (year dt < 10000 \<and> 1 \<le> month dt \<and> month dt \<le> 12
      \<and> 1 \<le> dayofmonth dt \<and> dayofmonth dt \<le> days_in_month (year dt) (month dt)
      \<and> hour dt < 24 \<and> minute dt < 60 \<and> second dt < 60)"

text \<open>
  Modelled from the spec: the schema of the \<open>date\<close> column is not among the sources.
  The spec has a calendar date in ISO form \<open>YYYY-MM-DD\<close>, with a time of day only
  where the time series needs one; the store takes \<open>YYYY-MM-DD\<close> (midnight) and
  \<open>YYYY-MM-DD HH:MM:SS\<close>, and rejects anything that is not a calendar date.
\<close>

definition store_datetime :: "string \<Rightarrow> datetime option" where
  "store_datetime s =
     (let t = drop 10 s;
          date_ok = (length s \<ge> 10 \<and> list_all is_digit (take 4 s) \<and> s ! 4 = CHR ''-''
                     \<and> list_all is_digit (take 2 (drop 5 s)) \<and> s ! 7 = CHR ''-''
                     \<and> list_all is_digit (take 2 (drop 8 s)));
          time_ok = (length t = 9 \<and> t ! 0 = CHR '' '' \<and> list_all is_digit (take 2 (drop 1 t))
                     \<and> t ! 3 = CHR '':'' \<and> list_all is_digit (take 2 (drop 4 t))
                     \<and> t ! 6 = CHR '':'' \<and> list_all is_digit (take 2 (drop 7 t)));
          dt = \<lparr>year = nat (digits_val 10 (take 4 s)),
                month = nat (digits_val 10 (take 2 (drop 5 s))),
                dayofmonth = nat (digits_val 10 (take 2 (drop 8 s))),
                hour = (if t = [] then 0 else nat (digits_val 10 (take 2 (drop 1 t)))),
                minute = (if t = [] then 0 else nat (digits_val 10 (take 2 (drop 4 t)))),
                second = (if t = [] then 0 else nat (digits_val 10 (take 2 (drop 7 t))))\<rparr>
      in if date_ok \<and> (t = [] \<or> time_ok) \<and> valid_datetime dt then Some dt else None)"

subsection \<open>Date functions of the queries\<close>

definition digit_char :: "nat \<Rightarrow> char" where
  "digit_char n = ''0123456789'' ! (n mod 10)"

definition pad2 :: "nat \<Rightarrow> string" where
  "pad2 n = [digit_char (n div 10), digit_char n]"

definition pad4 :: "nat \<Rightarrow> string" where
  "pad4 n = [digit_char (n div 1000), digit_char (n div 100), digit_char (n div 10), digit_char n]"

text \<open>\<open>DATE(date)\<close>: the calendar date without the time of day.\<close>

definition DATE :: "datetime \<Rightarrow> nat \<times> nat \<times> nat" where
  "DATE dt = (year dt, month dt, dayofmonth dt)"

text \<open>The key of \<open>ORDER BY date\<close>.\<close>

definition date_order :: "datetime \<Rightarrow> (nat \<times> nat \<times> nat) \<times> (nat \<times> nat \<times> nat)" where
  "date_order dt = (DATE dt, (hour dt, minute dt, second dt))"

text \<open>\<open>DATE_FORMAT(_, "%Y-%m-%d")\<close>, which is also moment's \<open>format('YYYY-MM-DD')\<close>.\<close>

definition format_ymd :: "nat \<times> nat \<times> nat \<Rightarrow> string" where
  "format_ymd k = (case k of (y, m, dd) \<Rightarrow> pad4 y @ ''-'' @ pad2 m @ ''-'' @ pad2 dd)"

definition format_date :: "datetime \<Rightarrow> string" where
  "format_date dt = format_ymd (DATE dt)"

text \<open>\<open>TIME_FORMAT(_, "%H:%i")\<close>.\<close>

definition format_time :: "datetime \<Rightarrow> string" where
  "format_time dt = pad2 (hour dt) @ '':'' @ pad2 (minute dt)"

definition MONTHNAME :: "nat \<Rightarrow> string" where
  "MONTHNAME m =
     (if 1 \<le> m \<and> m \<le> 12
      then [''January'', ''February'', ''March'', ''April'', ''May'', ''June'', ''July'',
            ''August'', ''September'', ''October'', ''November'', ''December''] ! (m - 1)
      else [])"

subsection \<open>Registration and login\<close>

text \<open>
  \<open>/^[^\s@]+@[^\s@]+\.[^\s@]+$/\<close> and \<open>/^[A-Za-z0-9_.-]+$/\<close>. A string has no
  character of the class \<open>\s\<close> when no suffix of it starts with one.
\<close>

fun has_space :: "string \<Rightarrow> bool" where
  "has_space [] = False"
| "has_space (c # cs) = (space_width (c # cs) \<noteq> 0 \<or> has_space cs)"

definition email_regex :: "string \<Rightarrow> bool" where
  "email_regex s =
     (let local_part = takeWhile (\<lambda>c. c \<noteq> CHR ''@'') s;
          rest = dropWhile (\<lambda>c. c \<noteq> CHR ''@'') s
      in local_part \<noteq> [] \<and> \<not> has_space local_part \<and> rest \<noteq> []
         \<and> CHR ''@'' \<notin> set (tl rest) \<and> \<not> has_space (tl rest)
         \<and> CHR ''.'' \<in> set (butlast (tl (tl rest))))"

definition username_regex :: "string \<Rightarrow> bool" where
  "username_regex s =
     (s \<noteq> [] \<and>
      list_all (\<lambda>c. c \<in> set ''ABCDEFGHIJKLMNOPQRSTUVWXYZabcdefghijklmnopqrstuvwxyz0123456789_.-'') s)"

text \<open>
  \<open>POST /register\<close>. String equality in a \<open>WHERE\<close> clause is decided by the collation
  of the column, \<open>coll\<close>; \<open>bcrypt.hash(_, 10)\<close> is \<open>hash\<close>.
\<close>

definition post_register ::
  "(string \<Rightarrow> string \<Rightarrow> bool) \<Rightarrow> (string \<Rightarrow> string) \<Rightarrow> db
     \<Rightarrow> string option \<Rightarrow> string option \<Rightarrow> string option \<Rightarrow> response \<times> db" where
  "post_register coll hash d username_b email_b password_b =
     (if falsy username_b \<or> falsy email_b \<or> falsy password_b
      then (error_response 400 ''Please fill out all fields!'', d)
      else
        (let rows = filter (\<lambda>u. coll (username u) (the username_b) \<or> coll (email u) (the email_b))
                           (register d)
         in if length rows > 0
            then (error_response 409 ''Account already exists with that username or email!'', d)
            else if \<not> email_regex (the email_b)
            then (error_response 400 ''Invalid email address!'', d)
            else if \<not> username_regex (the username_b)
            then (error_response 400
                    ''Username can only contain letters, numbers, underscores, dots, and hyphens!'', d)
            else
              (let hashedPassword = hash (the password_b)
               in (success_message 201 ''You have successfully registered!'',
                   d\<lparr>register := register d @
                        [\<lparr>user_id = next_user_id d, username = the username_b,
                          email = the email_b, password = hashedPassword,
                          spending_limit = None\<rparr>],
                     next_user_id := Suc (next_user_id d)\<rparr>))))"

text \<open>
  \<open>POST /login\<close>. The two fields are taken as any value a body can carry.
  \<open>coll\<close> is the comparison the store makes between the \<open>username\<close> column and the
  bound parameter. \<open>bcrypt.compare(s, hash)\<close> is \<open>compare\<close> on two strings; when
  \<open>s\<close> is not a string it fails with \<open>Illegal arguments: <typeof s>, string\<close>, which
  the handler's \<open>catch\<close> turns into a 500. It is not called when no account was
  found.
\<close>

definition post_login ::
  "(string \<Rightarrow> jsvalue \<Rightarrow> bool) \<Rightarrow> (string \<Rightarrow> string \<Rightarrow> bool) \<Rightarrow> db
     \<Rightarrow> jsvalue \<Rightarrow> jsvalue \<Rightarrow> response" where
  "post_login coll compare d username_b password_b =
     (if falsy_value username_b \<or> falsy_value password_b
      then error_response 400 ''Please enter username and password!''
      else
        (case filter (\<lambda>u. coll (username u) username_b) (register d) of
           [] \<Rightarrow> error_response 401 ''Incorrect username / password!''
         | account # _ \<Rightarrow>
             (case password_b of
                JString p \<Rightarrow>
                  if compare p (password account)
                  then \<lparr>code = 200, status = ''success'', message = Some ''Login successful!'',
                        data = UserData \<lparr>uj_id = user_id account, uj_username = username account,
                                          uj_email = email account\<rparr>\<rparr>
                  else error_response 401 ''Incorrect username / password!''
              | _ \<Rightarrow> error_response 500
                       (''Login failed: Illegal arguments: '' @ typeof password_b @ '', string''))))"

subsection \<open>Expenses\<close>

text \<open>A row as the handlers send it: the date as \<open>YYYY-MM-DD\<close>, the amount as a number.\<close>

definition format_expense :: "expense \<Rightarrow> expense_json" where
  "format_expense e =
     \<lparr>ej_id = expense_id e, ej_userid = userid e, ej_date = format_date (date e),
      ej_expensename = expensename e, ej_amount = read_number (amount e), ej_paymode = paymode e,
      ej_category = category e\<rparr>"

text \<open>\<open>POST /addexpense\<close>.\<close>

definition post_addexpense ::
  "db \<Rightarrow> string option \<Rightarrow> string option \<Rightarrow> string option \<Rightarrow> string option
     \<Rightarrow> string option \<Rightarrow> string option \<Rightarrow> response \<times> db" where
  "post_addexpense d userid_b date_b expensename_b amount_b paymode_b category_b =
     (if falsy userid_b then (error_response 400 ''User ID is required!'', d)
      else (let userIdNum = parseInt (the userid_b) in
        if isNaN userIdNum then (error_response 400 ''Invalid User ID format!'', d)
        else if falsy date_b \<or> falsy expensename_b \<or> falsy amount_b \<or> falsy paymode_b
                \<or> falsy category_b
        then (error_response 400 ''Please fill out all fields for expense!'', d)
        else (let amountNum = parseFloat (the amount_b) in
          if isNaN amountNum
          then (error_response 400 ''Invalid amount format! Amount must be a number.'', d)
          else case (column_integer userIdNum, store_datetime (the date_b),
                     column_number amountNum) of
            (Some u, Some dt, Some a) \<Rightarrow>
              (success_message 201 ''Expense added successfully!'',
               d\<lparr>expenses := expenses d @
                    [\<lparr>expense_id = next_expense_id d, userid = u, date = dt,
                      expensename = the expensename_b, amount = a,
                      paymode = the paymode_b, category = the category_b\<rparr>],
                 next_expense_id := Suc (next_expense_id d)\<rparr>)
          | _ \<Rightarrow> (error_response 500 (''Failed to add expense: '' @ store_error_message), d))))"

text \<open>The predicate \<open>id = ? AND userid = ?\<close> of the three statements on one expense.\<close>

definition owned_expense :: "string \<Rightarrow> jsnum \<Rightarrow> expense \<Rightarrow> bool" where
  "owned_expense expense_id_p userIdNum e =
     (id_matches expense_id_p e \<and> equals_param (userid e) userIdNum)"

text \<open>\<open>DELETE /delete_expense/:expense_id\<close>.\<close>

definition delete_expense :: "db \<Rightarrow> string \<Rightarrow> string option \<Rightarrow> response \<times> db" where
  "delete_expense d expense_id_p userid_q =
     (if falsy userid_q then (error_response 400 ''User ID is required!'', d)
      else (let userIdNum = parseInt (the userid_q) in
        if isNaN userIdNum then (error_response 400 ''Invalid User ID format!'', d)
        else
          (let affectedRows =
                 length (filter (owned_expense expense_id_p userIdNum) (expenses d));
               d' = d\<lparr>expenses :=
                       filter (\<lambda>e. \<not> owned_expense expense_id_p userIdNum e) (expenses d)\<rparr>
           in if affectedRows > 0
              then (success_message 200 ''Expense deleted successfully!'', d')
              else (error_response 404 ''Expense not found or not authorized to delete.'', d'))))"

text \<open>\<open>GET /expense/:expense_id\<close>.\<close>

definition get_expense :: "db \<Rightarrow> string \<Rightarrow> string option \<Rightarrow> response" where
  "get_expense d expense_id_p userid_q =
     (if falsy userid_q then error_response 400 ''User ID is required!''
      else (let userIdNum = parseInt (the userid_q) in
        if isNaN userIdNum then error_response 400 ''Invalid User ID format!''
        else
          (case filter (owned_expense expense_id_p userIdNum) (expenses d) of
             [] \<Rightarrow> error_response 404 ''Expense not found or not authorized.''
           | expense # _ \<Rightarrow> success_data (ExpenseData (format_expense expense)))))"

text \<open>
  \<open>PUT /update_expense/:expense_id\<close>. The driver reports the rows the \<open>UPDATE\<close>
  matched as \<open>affectedRows\<close>.
\<close>

definition put_update_expense ::
  "db \<Rightarrow> string \<Rightarrow> string option \<Rightarrow> string option \<Rightarrow> string option \<Rightarrow> string option
     \<Rightarrow> string option \<Rightarrow> string option \<Rightarrow> response \<times> db" where
  "put_update_expense d expense_id_p userid_b date_b expensename_b amount_b paymode_b category_b =
     (if falsy userid_b then (error_response 400 ''User ID is required!'', d)
      else (let userIdNum = parseInt (the userid_b) in
        if isNaN userIdNum then (error_response 400 ''Invalid User ID format!'', d)
        else if falsy date_b \<or> falsy expensename_b \<or> falsy amount_b \<or> falsy paymode_b
                \<or> falsy category_b
        then (error_response 400 ''Please fill out all fields for expense update!'', d)
        else (let amountNum = parseFloat (the amount_b) in
          if isNaN amountNum
          then (error_response 400 ''Invalid amount format! Amount must be a number.'', d)
          else
            (let checkRows = filter (owned_expense expense_id_p userIdNum) (expenses d)
             in if length checkRows = 0
                then (error_response 404 ''Expense not found or not authorized to update.'', d)
                else case (store_datetime (the date_b), column_number amountNum) of
                  (Some dt, Some a) \<Rightarrow>
                    (let affectedRows = length checkRows;
                         d' = d\<lparr>expenses :=
                                 map (\<lambda>e. if owned_expense expense_id_p userIdNum e
                                           then e\<lparr>date := dt, expensename := the expensename_b,
                                                  amount := a, paymode := the paymode_b,
                                                  category := the category_b\<rparr>
                                           else e) (expenses d)\<rparr>
                     in if affectedRows > 0
                        then (success_message 200 ''Expense updated successfully!'', d')
                        else (success_message 200 ''No changes detected for expense.'', d'))
                | _ \<Rightarrow> (error_response 500 (''Failed to update expense: '' @ store_error_message),
                        d)))))"

subsection \<open>Reports\<close>

text \<open>
  \<open>categoryTotals\<close> starts as the object literal \<open>{}\<close>, whose prototype is
  \<open>Object.prototype\<close>. Its own properties are kept as an association list in the order
  they were created. Reading a key that is not an own property gives \<open>undefined\<close>,
  unless \<open>Object.prototype\<close> has a property of that name: then the read gives the
  inherited function, or for the accessor \<open>__proto__\<close> the prototype object itself.
\<close>

definition object_prototype_methods :: "string list" where
  "object_prototype_methods =
     [''constructor'', ''hasOwnProperty'', ''isPrototypeOf'', ''propertyIsEnumerable'',
      ''toLocaleString'', ''toString'', ''valueOf'', ''__defineGetter__'',
      ''__defineSetter__'', ''__lookupGetter__'', ''__lookupSetter__'']"

fun set_property :: "string \<Rightarrow> total_value \<Rightarrow> (string \<times> total_value) list
    \<Rightarrow> (string \<times> total_value) list" where
  "set_property k v [] = [(k, v)]"
| "set_property k v (p # ps) = (if fst p = k then (k, v) # ps else p # set_property k v ps)"

text \<open>
  One step of the loop,
  \<open>categoryTotals[exp.category] = (categoryTotals[exp.category] || 0) + exp.amount\<close>:
  \<^item> an own number \<open>v\<close>: \<open>v || 0\<close> is \<open>v\<close>, or 0 when \<open>v\<close> is 0, and the sum is the
    sum of two doubles;
  \<^item> an own string, or an inherited function or object: the operand is truthy, \<open>+\<close>
    concatenates, and the result is a string;
  \<^item> the assignment creates or overwrites an own property, except for \<open>__proto__\<close>,
    whose setter ignores a value that is not an object.
\<close>

definition add_to_category :: "(string \<times> total_value) list \<Rightarrow> string \<Rightarrow> rat
    \<Rightarrow> (string \<times> total_value) list" where
  "add_to_category totals c a =
     (if c = ''__proto__'' then totals
      else case map_of totals c of
        Some (Number v) \<Rightarrow> set_property c (Number (js_add (if v = 0 then 0 else v) a)) totals
      | Some Text \<Rightarrow> set_property c Text totals
      | None \<Rightarrow>
          if c \<in> set object_prototype_methods then set_property c Text totals
          else set_property c (Number (js_add 0 a)) totals)"

definition categoryTotals :: "expense_json list \<Rightarrow> (string \<times> total_value) list" where
  "categoryTotals rawExpenses =
     foldl (\<lambda>totals exp. add_to_category totals (ej_category exp) (ej_amount exp)) [] rawExpenses"

definition total :: "expense_json list \<Rightarrow> rat" where
  "total rawExpenses = foldl (\<lambda>sum exp. js_add sum (ej_amount exp)) 0 rawExpenses"

text \<open>
  \<open>ORDER BY date DESC, id DESC\<close>, and \<open>ORDER BY date\<close>, where rows of equal date
  keep the order of the table.
\<close>

definition order_by_date_desc_id_desc :: "expense list \<Rightarrow> expense list" where
  "order_by_date_desc_id_desc rows = rev (sort_key (\<lambda>e. (date_order (date e), expense_id e)) rows)"

definition order_by_date :: "expense list \<Rightarrow> expense list" where
  "order_by_date rows = sort_key (\<lambda>e. date_order (date e)) rows"

text \<open>
  The three windows. The clock \<open>now\<close> gives \<open>moment().format('YYYY-MM-DD')\<close> and
  \<open>CURDATE()\<close>; the store compares calendar dates.
\<close>

definition in_today :: "datetime \<Rightarrow> jsnum \<Rightarrow> expense \<Rightarrow> bool" where
  "in_today now userIdNum e = (equals_param (userid e) userIdNum \<and> DATE (date e) = DATE now)"

definition in_month :: "datetime \<Rightarrow> jsnum \<Rightarrow> expense \<Rightarrow> bool" where
  "in_month now userIdNum e =
     (equals_param (userid e) userIdNum \<and> month (date e) = month now \<and> year (date e) = year now)"

definition in_year :: "datetime \<Rightarrow> jsnum \<Rightarrow> expense \<Rightarrow> bool" where
  "in_year now userIdNum e = (equals_param (userid e) userIdNum \<and> year (date e) = year now)"

definition build_report :: "series \<Rightarrow> expense list \<Rightarrow> response" where
  "build_report buckets rows =
     (let rawExpenses = map format_expense (order_by_date_desc_id_desc rows)
      in success_data (ReportData
           \<lparr>bucket_series = buckets, raw_expenses = rawExpenses,
            total_expenses = total rawExpenses,
            category_totals = categoryTotals rawExpenses\<rparr>))"

text \<open>\<open>GET /report/today\<close>: one point for each row of the day, in the order of \<open>date\<close>.\<close>

definition timeSeriesData :: "expense list \<Rightarrow> time_point list" where
  "timeSeriesData rows =
     map (\<lambda>e. \<lparr>date_only = format_date (date e), time_of_day = format_time (date e),
               tp_amount = read_number (amount e)\<rparr>) (order_by_date rows)"

definition get_report_today :: "datetime \<Rightarrow> db \<Rightarrow> string option \<Rightarrow> response" where
  "get_report_today now d userid_q =
     (if falsy userid_q then error_response 400 ''User ID is required!''
      else (let userIdNum = parseInt (the userid_q) in
        if isNaN userIdNum then error_response 400 ''Invalid User ID format!''
        else
          (let rows = filter (in_today now userIdNum) (expenses d)
           in build_report (time_series_data (timeSeriesData rows)) rows)))"

text \<open>
  \<open>GET /report/month\<close>: \<open>GROUP BY DATE(date) ORDER BY DATE(date)\<close> with \<open>SUM(amount)\<close>,
  which the store adds exactly and \<open>parseFloat\<close> then reads.
\<close>

definition dailyTotals :: "expense list \<Rightarrow> day_total list" where
  "dailyTotals rows =
     map (\<lambda>k. \<lparr>day = format_ymd k,
               day_total_amount =
                 read_number (sum_list (map amount (filter (\<lambda>e. DATE (date e) = k) rows)))\<rparr>)
         (sort (remdups (map (\<lambda>e. DATE (date e)) rows)))"

definition get_report_month :: "datetime \<Rightarrow> db \<Rightarrow> string option \<Rightarrow> response" where
  "get_report_month now d userid_q =
     (if falsy userid_q then error_response 400 ''User ID is required!''
      else (let userIdNum = parseInt (the userid_q) in
        if isNaN userIdNum then error_response 400 ''Invalid User ID format!''
        else
          (let rows = filter (in_month now userIdNum) (expenses d)
           in build_report (daily_totals (dailyTotals rows)) rows)))"

text \<open>
  \<open>GET /report/year\<close>: \<open>GROUP BY MONTH(date), MONTHNAME(date) ORDER BY MONTH(date)\<close>.
\<close>

definition monthlyTotals :: "expense list \<Rightarrow> month_total list" where
  "monthlyTotals rows =
     map (\<lambda>m. \<lparr>month_num = m, month_name = MONTHNAME m,
               month_total_amount =
                 read_number (sum_list (map amount (filter (\<lambda>e. month (date e) = m) rows)))\<rparr>)
         (sort (remdups (map (\<lambda>e. month (date e)) rows)))"

definition get_report_year :: "datetime \<Rightarrow> db \<Rightarrow> string option \<Rightarrow> response" where
  "get_report_year now d userid_q =
     (if falsy userid_q then error_response 400 ''User ID is required!''
      else (let userIdNum = parseInt (the userid_q) in
        if isNaN userIdNum then error_response 400 ''Invalid User ID format!''
        else
          (let rows = filter (in_year now userIdNum) (expenses d)
           in build_report (monthly_totals (monthlyTotals rows)) rows)))"

text \<open>The router: \<open>/report/today\<close>, \<open>/report/month\<close> and \<open>/report/year\<close>.\<close>

datatype window = Today | Month | Year

definition in_window :: "window \<Rightarrow> datetime \<Rightarrow> jsnum \<Rightarrow> expense \<Rightarrow> bool" where
  "in_window w = (case w of Today \<Rightarrow> in_today | Month \<Rightarrow> in_month | Year \<Rightarrow> in_year)"

definition get_report :: "window \<Rightarrow> datetime \<Rightarrow> db \<Rightarrow> string option \<Rightarrow> response" where
  "get_report w =
     (case w of Today \<Rightarrow> get_report_today | Month \<Rightarrow> get_report_month | Year \<Rightarrow> get_report_year)"

subsection \<open>Vocabulary of the properties\<close>

text \<open>The sum of the values of \<open>category_totals\<close>, when every value is a number.\<close>

fun values_sum :: "(string \<times> total_value) list \<Rightarrow> rat option" where
  "values_sum [] = Some 0"
| "values_sum ((k, Number v) # ps) = map_option (\<lambda>s. v + s) (values_sum ps)"
| "values_sum ((k, Text) # ps) = None"

definition empty_series :: "window \<Rightarrow> series" where
  "empty_series w =
     (case w of Today \<Rightarrow> time_series_data [] | Month \<Rightarrow> daily_totals []
      | Year \<Rightarrow> monthly_totals [])"

definition the_report :: "response \<Rightarrow> report option" where
  "the_report r = (case data r of ReportData rep \<Rightarrow> Some rep | _ \<Rightarrow> None)"




subsection \<open>Example data\<close>

definition at_time :: "nat \<Rightarrow> nat \<Rightarrow> nat \<Rightarrow> nat \<Rightarrow> nat \<Rightarrow> datetime" where
  "at_time y m dd h mi = \<lparr>year = y, month = m, dayofmonth = dd, hour = h, minute = mi, second = 0\<rparr>"

definition ann :: user where
  "ann = \<lparr>user_id = 1, username = ''ann'', email = ''ann@example.org'',
          password = ''$2a$10$annhash'', spending_limit = Some 50\<rparr>"

definition bob :: user where
  "bob = \<lparr>user_id = 2, username = ''bob'', email = ''bob@example.org'',
          password = ''$2a$10$bobhash'', spending_limit = None\<rparr>"

definition lunch :: expense where
  "lunch = \<lparr>expense_id = 1, userid = 1, date = at_time 2024 5 1 0 0, expensename = ''lunch'',
            amount = 10, paymode = ''cash'', category = ''food''\<rparr>"

definition flat :: expense where
  "flat = \<lparr>expense_id = 2, userid = 1, date = at_time 2024 5 2 0 0, expensename = ''flat'',
           amount = 20, paymode = ''online'', category = ''rent''\<rparr>"

definition taxi :: expense where
  "taxi = \<lparr>expense_id = 3, userid = 2, date = at_time 2024 5 2 0 0, expensename = ''taxi'',
           amount = 7, paymode = ''card'', category = ''business''\<rparr>"

text \<open>Scenario A: the two expenses of user 1, and one expense of another user.\<close>

definition scenario_A :: db where
  "scenario_A = \<lparr>register = [ann, bob], expenses = [lunch, flat, taxi],
                 next_user_id = 3, next_expense_id = 4\<rparr>"

definition users_only :: db where
  "users_only = \<lparr>register = [ann, bob], expenses = [], next_user_id = 3, next_expense_id = 1\<rparr>"

text \<open>A day with three expenses of user 1, two of them in the same minute.\<close>

definition dinner :: expense where
  "dinner = \<lparr>expense_id = 4, userid = 1, date = at_time 2024 5 2 19 40, expensename = ''dinner'',
             amount = 30, paymode = ''card'', category = ''food''\<rparr>"

definition coffee :: expense where
  "coffee = \<lparr>expense_id = 5, userid = 1, date = at_time 2024 5 2 8 15, expensename = ''coffee'',
             amount = 3, paymode = ''cash'', category = ''food''\<rparr>"

definition bagel :: expense where
  "bagel = \<lparr>expense_id = 6, userid = 1, date = at_time 2024 5 2 8 15, expensename = ''bagel'',
            amount = 4, paymode = ''cash'', category = ''food''\<rparr>"


text \<open>One expense whose category is the text \<open>__proto__\<close>.\<close>

definition gift :: expense where
  "gift = \<lparr>expense_id = 1, userid = 1, date = at_time 2024 5 2 10 0, expensename = ''gift'',
           amount = 10, paymode = ''cash'', category = ''__proto__''\<rparr>"

definition proto_db :: db where
  "proto_db = \<lparr>register = [ann, bob], expenses = [gift], next_user_id = 3, next_expense_id = 2\<rparr>"

text \<open>
  A stand-in for bcrypt in the examples: the stored hash of \<open>ann\<close>'s password \<open>ann\<close>
  is \<open>$2a$10$annhash\<close>. The comparison of the store is the equality of texts.
\<close>

definition toy_hash :: "string \<Rightarrow> string" where
  "toy_hash p = ''$2a$10$'' @ p @ ''hash''"

definition toy_compare :: "string \<Rightarrow> string \<Rightarrow> bool" where
  "toy_compare p h = (toy_hash p = h)"

definition same_text :: "string \<Rightarrow> jsvalue \<Rightarrow> bool" where
  "same_text c v = (v = JString c)"

section \<open>Properties\<close>

subsection \<open>Doubles\<close>

lemma bit_length_bounds:
  "0 < n \<Longrightarrow> 0 < bit_length n \<and> 2 ^ nat (bit_length n - 1) \<le> n \<and> n < 2 ^ nat (bit_length n)"
proof (induction n rule: bit_length.induct)
  case (1 n)
  show ?case
  proof (cases "n div 2 = 0")
    case True
    with "1.prems" have "n = 1" by presburger
    then show ?thesis by (simp add: bit_length.simps)
  next
    case False
    with "1.prems" have pos: "0 < n div 2" by presburger
    let ?b = "bit_length (n div 2)"
    from "1.IH" pos "1.prems"
    have ih: "0 < ?b" "2 ^ nat (?b - 1) \<le> n div 2" "n div 2 < 2 ^ nat ?b"
      by auto
    have bl: "bit_length n = 1 + ?b"
      using "1.prems" by (subst bit_length.simps) simp
    have e1: "nat (1 + ?b - 1) = Suc (nat (?b - 1))" and e2: "nat (1 + ?b) = Suc (nat ?b)"
      using ih(1) by auto
    have "(2::int) ^ nat (1 + ?b - 1) \<le> n"
      using ih(2) unfolding e1 by simp
    moreover have "n < 2 ^ nat (1 + ?b)"
      using ih(3) unfolding e2 by simp
    ultimately show ?thesis using ih(1) bl by simp
  qed
qed

lemma round_half_even_of_int: "round_half_even (of_int z) = z"
  by (simp add: round_half_even_def)

text \<open>A whole number below \<open>2\<^sup>5\<^sup>3\<close> in magnitude is a double.\<close>

lemma nearest_double_pos_int:
  assumes "0 < n" and "n < 2 ^ 53"
  shows "nearest_double (of_int n) = of_int n"
proof -
  let ?b = "bit_length n"
  from bit_length_bounds [OF assms(1)]
  have b: "0 < ?b" "2 ^ nat (?b - 1) \<le> n" "n < 2 ^ nat ?b" by auto
  have "(2::int) ^ nat (?b - 1) < 2 ^ 53" using b(2) assms(2) by linarith
  then have "nat (?b - 1) < 53" by (rule power_less_imp_less_exp [rotated]) simp
  then have le: "?b - 1 < 53" by simp
  have b1: "bit_length 1 = 1" by (simp add: bit_length.simps)
  have p: "pow2 (?b - 1) \<le> of_int n"
  proof -
    have "(of_int (2 ^ nat (?b - 1)) :: rat) \<le> of_int n" using b(2) by (simp only: of_int_le_iff)
    then show ?thesis using b(1) by (simp add: pow2_def)
  qed
  have fl: "floor_log2 (of_int n) = ?b - 1"
    using p by (simp add: floor_log2_def b1)
  have abs: "\<bar>of_int n :: rat\<bar> = of_int n" using assms(1) by simp
  let ?k = "nat (52 - (?b - 1))"
  have ulp: "pow2 (?b - 1 - 52) = 1 / 2 ^ ?k"
  proof (cases "?b - 1 = 52")
    case True
    then show ?thesis by (simp add: pow2_def)
  next
    case False
    with le have "?b - 1 - 52 < 0" by simp
    moreover have "nat (- (?b - 1 - 52)) = ?k" by simp
    ultimately show ?thesis by (simp add: pow2_def)
  qed
  have q: "(of_int n :: rat) / (1 / 2 ^ ?k) = of_int (n * 2 ^ ?k)" by simp
  have "nearest_double (of_int n)
          = of_int (round_half_even (of_int n / pow2 (?b - 1 - 52))) * pow2 (?b - 1 - 52)"
    using assms(1) b(1) unfolding nearest_double_def Let_def abs fl by simp
  also have "\<dots> = of_int (n * 2 ^ ?k) * (1 / 2 ^ ?k)"
    unfolding ulp q round_half_even_of_int ..
  also have "\<dots> = of_int n" by simp
  finally show ?thesis .
qed

lemma nearest_double_minus: "nearest_double (- v) = - nearest_double v"
  by (simp add: nearest_double_def Let_def)

lemma nearest_double_int:
  assumes "\<bar>n\<bar> < 2 ^ 53"
  shows "nearest_double (of_int n) = of_int n"
proof -
  consider "n = 0" | "0 < n" | "n < 0" by linarith
  then show ?thesis
  proof cases
    case 1
    then show ?thesis by (simp add: nearest_double_def)
  next
    case 2
    with assms show ?thesis by (simp add: nearest_double_pos_int)
  next
    case 3
    with assms have "0 < - n" "- n < 2 ^ 53" by auto
    from nearest_double_pos_int [OF this] have "nearest_double (- of_int n) = - of_int n" by simp
    then show ?thesis by (simp add: nearest_double_minus)
  qed
qed

lemma double_of_int:
  assumes "\<bar>n\<bar> < 2 ^ 53"
  shows "double_of_rat (of_int n) = Num (of_int n)"
proof -
  have "\<bar>of_int n :: rat\<bar> < 2 ^ 1024"
  proof -
    have "\<bar>n\<bar> < 2 ^ 1024" using assms by (rule less_trans) simp
    then have "(of_int \<bar>n\<bar> :: rat) < of_int (2 ^ 1024)" by (simp only: of_int_less_iff)
    then show ?thesis by simp
  qed
  then show ?thesis
    by (simp add: double_of_rat_def nearest_double_int [OF assms])
qed

text \<open>The numbers of the examples are doubles.\<close>

lemma example_doubles:
  "nearest_double 3 = 3" "nearest_double 4 = 4" "nearest_double 7 = 7" "nearest_double 10 = 10"
  "nearest_double 20 = 20" "nearest_double 30 = 30" "nearest_double 37 = 37"
  using nearest_double_int [of 3] nearest_double_int [of 4] nearest_double_int [of 7]
    nearest_double_int [of 10] nearest_double_int [of 20] nearest_double_int [of 30]
    nearest_double_int [of 37]
  by simp_all

lemma example_numbers:
  "double_of_rat 1 = Num 1" "double_of_rat 2 = Num 2" "double_of_rat 7 = Num 7"
  "double_of_rat 21 = Num 21" "double_of_rat (- 5) = Num (- 5)"
  using double_of_int [of 1] double_of_int [of 2] double_of_int [of 7] double_of_int [of 21]
    double_of_int [of "- 5"]
  by simp_all

text \<open>Unfolding sets for evaluating the definitions on the example data.\<close>

lemmas example_defs = ann_def bob_def lunch_def flat_def taxi_def dinner_def coffee_def
  bagel_def gift_def at_time_def


lemmas parse_defs = parseInt_def parseFloat_def strip_sign_def trim_start.simps space_width_def
  three_byte_spaces_def is_digit_def is_hex_digit_def digits_val_def digit_val_def
  decimal_prefix_def exponent_part_def scale10_def store_number_def store_space_def

lemma parseInt_1: "parseInt ''1'' = Num 1"
  by (simp add: parse_defs example_numbers)

lemma equals_param_of_int: "equals_param c (Num (of_int n)) \<longleftrightarrow> c = n"
  by (auto simp: equals_param_def)

lemma equals_param_1: "equals_param c (Num 1) \<longleftrightarrow> c = 1"
  using equals_param_of_int [of c 1] by simp

lemma equals_param_numeral: "equals_param c (Num (numeral k)) \<longleftrightarrow> c = numeral k"
  using equals_param_of_int [of c "numeral k"] by simp

subsection \<open>Spending limit\<close>

text \<open>
  C10. For a userid with no row in the user table, \<open>GET /limit\<close> answers with success
  and limit 0, and that is the very answer it gives for an existing user whose
  spending limit is null; it is not a NotFound error.
\<close>

theorem getLimit_unknown_user_is_zero:
  assumes "\<not> falsy userid_q" and "parseInt (the userid_q) = Num (of_int n)"
    and "\<forall>u \<in> set (register d). int (user_id u) \<noteq> n"
    and "filter (\<lambda>u. int (user_id u) = n) (register d2) = u2 # others"
    and "spending_limit u2 = None"
  shows "get_limit d userid_q = success_data (LimitData 0)
       \<and> get_limit d2 userid_q = get_limit d userid_q
       \<and> code (get_limit d userid_q) = 200 \<and> status (get_limit d userid_q) = ''success''"
proof -
  from assms(3) have "filter (\<lambda>u. int (user_id u) = n) (register d) = []"
    by (simp add: filter_empty_conv)
  with assms show ?thesis
    by (simp add: get_limit_def success_data_def isNaN_def equals_param_of_int)
qed

theorem getLimit_unknown_user_is_zero_witness:
  "get_limit users_only (Some ''7'') = success_data (LimitData 0)
   \<and> get_limit users_only (Some ''2'') = get_limit users_only (Some ''7'')"
proof -
  let ?d2 = "users_only\<lparr>register := [\<lparr>user_id = 7, username = ''eve'', email = ''eve@example.org'',
                                        password = ''$2a$10$evehash'', spending_limit = None\<rparr>]\<rparr>"
  have p: "parseInt (the (Some ''7'')) = Num (of_int 7)"
    by (simp add: parse_defs example_numbers)
  have p2: "parseInt ''2'' = Num (of_int 2)"
    by (simp add: parse_defs example_numbers)
  have f: "\<not> falsy (Some ''7'')" by (simp add: falsy_def)
  have a: "\<forall>u \<in> set (register users_only). int (user_id u) \<noteq> 7"
    by (simp add: users_only_def ann_def bob_def)
  have b: "filter (\<lambda>u. int (user_id u) = 7) (register ?d2)
             = \<lparr>user_id = 7, username = ''eve'', email = ''eve@example.org'',
                password = ''$2a$10$evehash'', spending_limit = None\<rparr> # []"
    by simp
  have "get_limit users_only (Some ''7'') = success_data (LimitData 0)"
    using getLimit_unknown_user_is_zero [OF f p a b] by simp
  moreover have "get_limit users_only (Some ''2'') = success_data (LimitData 0)"
    by (simp add: get_limit_def falsy_def p2 isNaN_def equals_param_numeral Let_def
          users_only_def ann_def bob_def)
  ultimately show ?thesis by simp
qed




subsection \<open>Reports\<close>

text \<open>
  C1 at a failing input. User 1 has one expense today, amount 10, whose category is
  the text \<open>__proto__\<close>. The report has \<open>total_expenses\<close> 10, equal to the sum of the
  amounts of \<open>raw_expenses\<close>, but \<open>category_totals\<close> is empty, so its values add up
  to 0 and not to 10.
\<close>

theorem category_totals_proto_failing_input:
  "map_option (\<lambda>rep. (map ej_amount (raw_expenses rep), total_expenses rep, category_totals rep,
                       values_sum (category_totals rep)))
     (the_report (get_report Today (at_time 2024 5 2 21 0) proto_db (Some ''1'')))
   = Some ([10], 10, [], Some 0)"
proof -
  have rows: "filter (in_today (at_time 2024 5 2 21 0) (Num 1)) (expenses proto_db) = [gift]"
    by (simp add: proto_db_def in_today_def equals_param_1 gift_def at_time_def DATE_def)
  have raw: "map format_expense (order_by_date_desc_id_desc [gift]) = [format_expense gift]"
    by (simp add: order_by_date_desc_id_desc_def)
  have c: "categoryTotals [format_expense gift] = []"
    by (simp add: categoryTotals_def add_to_category_def format_expense_def gift_def)
  have t: "total [format_expense gift] = 10"
    by (simp add: total_def js_add_def format_expense_def read_number_def gift_def example_doubles)
  show ?thesis
    by (simp add: get_report_def get_report_today_def falsy_def parseInt_1 isNaN_def rows
          build_report_def raw c t the_report_def success_data_def)
       (simp add: format_expense_def read_number_def gift_def example_doubles)
qed









text \<open>
  C7. When no expense of the user falls in the window, the report is a success
  (status 200): \<open>total_expenses\<close> is 0, \<open>category_totals\<close> is the empty object,
  \<open>raw_expenses\<close> is the empty list and the series of the window is empty.
\<close>

theorem empty_window_report:
  assumes "\<not> falsy userid_q" and "parseInt (the userid_q) = Num (of_int n)"
    and "filter (in_window w now (Num (of_int n))) (expenses d) = []"
  shows "get_report w now d userid_q
       = \<lparr>code = 200, status = ''success'', message = None,
          data = ReportData \<lparr>bucket_series = empty_series w, raw_expenses = [],
                             total_expenses = 0, category_totals = []\<rparr>\<rparr>"
  using assms
  by (cases w)
     (simp_all add: get_report_def in_window_def empty_series_def get_report_today_def
        get_report_month_def get_report_year_def isNaN_def build_report_def success_data_def
        timeSeriesData_def dailyTotals_def monthlyTotals_def order_by_date_def
        order_by_date_desc_id_desc_def total_def categoryTotals_def)

theorem empty_window_report_witness:
  "filter (in_window Year (at_time 2023 12 31 23 59) (Num (of_int 1))) (expenses scenario_A) = []
   \<and> get_report Year (at_time 2023 12 31 23 59) scenario_A (Some ''1'')
     = \<lparr>code = 200, status = ''success'', message = None,
        data = ReportData \<lparr>bucket_series = monthly_totals [], raw_expenses = [],
                           total_expenses = 0, category_totals = []\<rparr>\<rparr>"
proof -
  have f: "\<not> falsy (Some ''1'')"
    by (simp add: falsy_def)
  have p: "parseInt (the (Some ''1'')) = Num (of_int 1)"
    by (simp add: parseInt_1)
  have e: "filter (in_window Year (at_time 2023 12 31 23 59) (Num (of_int 1))) (expenses scenario_A)
             = []"
    by (simp add: in_window_def in_year_def scenario_A_def example_defs)
  from empty_window_report [OF f p e] e show ?thesis
    by (simp add: empty_series_def)
qed

subsection \<open>Ownership of expenses\<close>

text \<open>
  C2. Take a request whose userid parses to \<open>n\<close> and, for the update, whose fields
  pass the handler's checks. Whether no row has the requested id at all (\<open>d1\<close>), or
  rows with that id exist but none belongs to \<open>n\<close> (\<open>d2\<close>), read-single, update and
  delete give the same 404 response, with the same status and message in both cases,
  and the tables are unchanged.
\<close>

theorem ownership_not_found:
  assumes absent: "\<forall>e \<in> set (expenses d1). \<not> id_matches expense_id_p e"
    and present: "\<exists>e \<in> set (expenses d2). id_matches expense_id_p e"
    and foreign: "\<forall>e \<in> set (expenses d2). id_matches expense_id_p e \<longrightarrow> userid e \<noteq> n"
    and user: "\<not> falsy userid_f" "parseInt (the userid_f) = Num (of_int n)"
    and fields: "\<not> falsy date_b" "\<not> falsy expensename_b" "\<not> falsy amount_b"
      "\<not> falsy paymode_b" "\<not> falsy category_b" "parseFloat (the amount_b) \<noteq> NaN"
  shows "delete_expense d1 expense_id_p userid_f
           = (error_response 404 ''Expense not found or not authorized to delete.'', d1)
       \<and> delete_expense d2 expense_id_p userid_f
           = (error_response 404 ''Expense not found or not authorized to delete.'', d2)
       \<and> get_expense d1 expense_id_p userid_f
           = error_response 404 ''Expense not found or not authorized.''
       \<and> get_expense d2 expense_id_p userid_f
           = error_response 404 ''Expense not found or not authorized.''
       \<and> put_update_expense d1 expense_id_p userid_f date_b expensename_b amount_b paymode_b
             category_b
           = (error_response 404 ''Expense not found or not authorized to update.'', d1)
       \<and> put_update_expense d2 expense_id_p userid_f date_b expensename_b amount_b paymode_b
             category_b
           = (error_response 404 ''Expense not found or not authorized to update.'', d2)"
proof -
  let ?own = "owned_expense expense_id_p (Num (of_int n))"
  have f1: "filter ?own (expenses d1) = []"
    using absent by (simp add: filter_empty_conv owned_expense_def)
  have f2: "filter ?own (expenses d2) = []"
    using foreign by (auto simp: filter_empty_conv owned_expense_def equals_param_of_int)
  have k1: "filter (\<lambda>e. \<not> ?own e) (expenses d1) = expenses d1"
    using absent by (simp add: filter_id_conv owned_expense_def)
  have k2: "filter (\<lambda>e. \<not> ?own e) (expenses d2) = expenses d2"
    using foreign by (auto simp: filter_id_conv owned_expense_def equals_param_of_int)
  have "delete_expense d1 expense_id_p userid_f
           = (error_response 404 ''Expense not found or not authorized to delete.'', d1)"
    using user by (simp add: delete_expense_def isNaN_def f1 k1)
  moreover have "delete_expense d2 expense_id_p userid_f
           = (error_response 404 ''Expense not found or not authorized to delete.'', d2)"
    using user by (simp add: delete_expense_def isNaN_def f2 k2)
  moreover have "get_expense d1 expense_id_p userid_f
           = error_response 404 ''Expense not found or not authorized.''"
    using user by (simp add: get_expense_def isNaN_def f1)
  moreover have "get_expense d2 expense_id_p userid_f
           = error_response 404 ''Expense not found or not authorized.''"
    using user by (simp add: get_expense_def isNaN_def f2)
  moreover have "put_update_expense d1 expense_id_p userid_f date_b expensename_b amount_b
             paymode_b category_b
           = (error_response 404 ''Expense not found or not authorized to update.'', d1)"
    using user fields by (simp add: put_update_expense_def f1 isNaN_def)
  moreover have "put_update_expense d2 expense_id_p userid_f date_b expensename_b amount_b
             paymode_b category_b
           = (error_response 404 ''Expense not found or not authorized to update.'', d2)"
    using user fields by (simp add: put_update_expense_def f2 isNaN_def)
  ultimately show ?thesis by simp
qed

lemma parseFloat_12_50: "parseFloat ''12.50'' = Num (25 / 2)"
proof -
  have "double_of_rat (25 / 2) = Num (25 / 2)"
    by code_simp
  then show ?thesis
    by (simp add: parse_defs)
qed

theorem ownership_not_found_witness:
  "fst (delete_expense users_only ''3'' (Some ''1'')) = fst (delete_expense scenario_A ''3'' (Some ''1''))
   \<and> delete_expense scenario_A ''3'' (Some ''1'')
       = (error_response 404 ''Expense not found or not authorized to delete.'', scenario_A)
   \<and> get_expense users_only ''3'' (Some ''1'') = get_expense scenario_A ''3'' (Some ''1'')
   \<and> get_expense scenario_A ''3'' (Some ''1'')
       = error_response 404 ''Expense not found or not authorized.''
   \<and> put_update_expense scenario_A ''3'' (Some ''1'') (Some ''2024-05-03'') (Some ''cab'')
         (Some ''12.50'') (Some ''card'') (Some ''other'')
       = (error_response 404 ''Expense not found or not authorized to update.'', scenario_A)
   \<and> fst (put_update_expense users_only ''3'' (Some ''1'') (Some ''2024-05-03'') (Some ''cab'')
         (Some ''12.50'') (Some ''card'') (Some ''other''))
       = error_response 404 ''Expense not found or not authorized to update.''"
proof -
  have absent: "\<forall>e \<in> set (expenses users_only). \<not> id_matches ''3'' e"
    by (simp add: users_only_def)
  have present: "\<exists>e \<in> set (expenses scenario_A). id_matches ''3'' e"
    by (simp add: scenario_A_def id_matches_def parse_defs example_defs)
  have foreign: "\<forall>e \<in> set (expenses scenario_A). id_matches ''3'' e \<longrightarrow> userid e \<noteq> 1"
    by (simp add: scenario_A_def id_matches_def parse_defs example_defs)
  have user: "\<not> falsy (Some ''1'')" "parseInt (the (Some ''1'')) = Num (of_int 1)"
    by (simp_all add: falsy_def parseInt_1)
  have fields: "\<not> falsy (Some ''2024-05-03'')" "\<not> falsy (Some ''cab'')" "\<not> falsy (Some ''12.50'')"
    "\<not> falsy (Some ''card'')" "\<not> falsy (Some ''other'')"
    by (simp_all add: falsy_def)
  have amount: "parseFloat (the (Some ''12.50'')) \<noteq> NaN"
    by (simp add: parseFloat_12_50)
  from ownership_not_found [OF absent present foreign user fields amount]
  show ?thesis by simp
qed

text \<open>
  C4, as stated, fails: \<open>POST /addexpense\<close> with \<open>amount = -5\<close> answers 201 and
  stores an expense whose amount is \<open>-5\<close>.
\<close>

theorem addexpense_negative_counterexample:
  "post_addexpense users_only (Some ''1'') (Some ''2024-05-01'') (Some ''refund'') (Some ''-5'')
       (Some ''cash'') (Some ''food'')
     = (success_message 201 ''Expense added successfully!'',
        users_only\<lparr>expenses := [\<lparr>expense_id = 1, userid = 1, date = at_time 2024 5 1 0 0,
                                   expensename = ''refund'', amount = - 5, paymode = ''cash'',
                                   category = ''food''\<rparr>],
                    next_expense_id := 2\<rparr>)
   \<and> \<not> 0 \<le> amount \<lparr>expense_id = 1, userid = 1, date = at_time 2024 5 1 0 0,
                     expensename = ''refund'', amount = - 5, paymode = ''cash'',
                     category = ''food''\<rparr>"
proof -
  have a: "parseFloat ''-5'' = Num (- 5)"
    by (simp add: parse_defs example_numbers)
  have dt: "store_datetime ''2024-05-01'' = Some (at_time 2024 5 1 0 0)"
    by (simp add: store_datetime_def Let_def is_digit_def digits_val_def digit_val_def
          valid_datetime_def days_in_month_def at_time_def)
  show ?thesis
    by (simp add: post_addexpense_def falsy_def parseInt_1 a dt isNaN_def column_number_def
          column_integer_def users_only_def)
qed

text \<open>
  C4, amended. An expense accepted by the add operation is stored with the finite
  number that \<open>parseFloat\<close> reads from the submitted amount, which is never \<open>NaN\<close> and
  may be negative. An accepted update finds at least one expense with the requested
  id and owner; it gives that number to each such expense and leaves the amount of
  every other row, and the id and owner of every row, as they were.
\<close>

theorem accepted_amount_is_a_number:
  "(code (fst (post_addexpense d userid_b date_b expensename_b amount_b paymode_b category_b)) = 201
      \<longrightarrow> (\<exists>a row. parseFloat (the amount_b) = Num a \<and> amount row = a
             \<and> expenses (snd (post_addexpense d userid_b date_b expensename_b amount_b paymode_b
                                category_b)) = expenses d @ [row]))
   \<and> (code (fst (put_update_expense d expense_id_p userid_b date_b expensename_b amount_b paymode_b
               category_b)) = 200
      \<longrightarrow> (\<exists>a. parseFloat (the amount_b) = Num a
             \<and> filter (owned_expense expense_id_p (parseInt (the userid_b))) (expenses d) \<noteq> []
             \<and> map amount (expenses (snd (put_update_expense d expense_id_p userid_b date_b
                                            expensename_b amount_b paymode_b category_b)))
                 = map (\<lambda>e. if owned_expense expense_id_p (parseInt (the userid_b)) e
                             then a else amount e) (expenses d)
             \<and> map expense_id (expenses (snd (put_update_expense d expense_id_p userid_b date_b
                                                expensename_b amount_b paymode_b category_b)))
                 = map expense_id (expenses d)
             \<and> map userid (expenses (snd (put_update_expense d expense_id_p userid_b date_b
                                            expensename_b amount_b paymode_b category_b)))
                 = map userid (expenses d)))"
  by (auto simp: post_addexpense_def put_update_expense_def error_response_def success_message_def
        isNaN_def column_number_def Let_def
        split: option.splits if_splits jsnum.splits prod.splits)

theorem accepted_amount_is_a_number_witness:
  "code (fst (post_addexpense users_only (Some ''1'') (Some ''2024-05-01'') (Some ''lunch'')
            (Some ''12.50'') (Some ''cash'') (Some ''food''))) = 201
   \<and> parseFloat ''12.50'' = Num (25 / 2)
   \<and> map amount (expenses (snd (post_addexpense users_only (Some ''1'') (Some ''2024-05-01'')
            (Some ''lunch'') (Some ''12.50'') (Some ''cash'') (Some ''food'')))) = [25 / 2]
   \<and> code (fst (put_update_expense scenario_A ''2'' (Some ''1'') (Some ''2024-05-02'') (Some ''flat'')
            (Some ''21'') (Some ''online'') (Some ''rent''))) = 200
   \<and> map amount (expenses scenario_A) = [10, 20, 7]
   \<and> map amount (expenses (snd (put_update_expense scenario_A ''2'' (Some ''1'')
            (Some ''2024-05-02'') (Some ''flat'') (Some ''21'') (Some ''online'') (Some ''rent''))))
       = [10, 21, 7]"
proof -
  have a: "parseFloat ''12.50'' = Num (25 / 2)"
    by (rule parseFloat_12_50)
  have b: "parseFloat ''21'' = Num 21"
    by (simp add: parse_defs example_numbers)
  have dt: "store_datetime ''2024-05-01'' = Some (at_time 2024 5 1 0 0)"
    "store_datetime ''2024-05-02'' = Some (at_time 2024 5 2 0 0)"
    by (simp_all add: store_datetime_def Let_def is_digit_def digits_val_def digit_val_def
          valid_datetime_def days_in_month_def at_time_def)
  have add: "post_addexpense users_only (Some ''1'') (Some ''2024-05-01'') (Some ''lunch'')
               (Some ''12.50'') (Some ''cash'') (Some ''food'')
           = (success_message 201 ''Expense added successfully!'',
              users_only\<lparr>expenses := [\<lparr>expense_id = 1, userid = 1, date = at_time 2024 5 1 0 0,
                                         expensename = ''lunch'', amount = 25 / 2,
                                         paymode = ''cash'', category = ''food''\<rparr>],
                          next_expense_id := 2\<rparr>)"
    by (simp add: post_addexpense_def falsy_def parseInt_1 a dt isNaN_def column_number_def
          column_integer_def users_only_def)
  have own: "owned_expense ''2'' (Num 1) lunch = False" "owned_expense ''2'' (Num 1) flat = True"
    "owned_expense ''2'' (Num 1) taxi = False"
    by (simp_all add: owned_expense_def id_matches_def equals_param_1 parse_defs example_defs)
  have c2: "code (fst (put_update_expense scenario_A ''2'' (Some ''1'') (Some ''2024-05-02'')
               (Some ''flat'') (Some ''21'') (Some ''online'') (Some ''rent''))) = 200"
    by (simp add: put_update_expense_def falsy_def parseInt_1 b dt isNaN_def column_number_def
          scenario_A_def own success_message_def)
  have c: "code (fst (post_addexpense users_only (Some ''1'') (Some ''2024-05-01'') (Some ''lunch'')
            (Some ''12.50'') (Some ''cash'') (Some ''food''))) = 201"
    by (simp add: add success_message_def)
  from accepted_amount_is_a_number [of users_only "Some ''1''" "Some ''2024-05-01''"
      "Some ''lunch''" "Some ''12.50''" "Some ''cash''" "Some ''food''"] c
  have "\<exists>r row. parseFloat (the (Some ''12.50'')) = Num r \<and> amount row = r
          \<and> expenses (snd (post_addexpense users_only (Some ''1'') (Some ''2024-05-01'')
                (Some ''lunch'') (Some ''12.50'') (Some ''cash'') (Some ''food'')))
            = expenses users_only @ [row]"
    by simp
  then have 1: "map amount (expenses (snd (post_addexpense users_only (Some ''1'')
        (Some ''2024-05-01'') (Some ''lunch'') (Some ''12.50'') (Some ''cash'') (Some ''food''))))
      = [25 / 2]"
    by (auto simp: a users_only_def)
  from accepted_amount_is_a_number [of scenario_A "Some ''1''" "Some ''2024-05-02''"
      "Some ''flat''" "Some ''21''" "Some ''online''" "Some ''rent''" "''2''"] c2
  have "\<exists>r. parseFloat (the (Some ''21'')) = Num r
          \<and> map amount (expenses (snd (put_update_expense scenario_A ''2'' (Some ''1'')
              (Some ''2024-05-02'') (Some ''flat'') (Some ''21'') (Some ''online'') (Some ''rent''))))
            = map (\<lambda>e. if owned_expense ''2'' (parseInt (the (Some ''1''))) e then r else amount e)
                (expenses scenario_A)"
    by blast
  then obtain r where r: "parseFloat (the (Some ''21'')) = Num r"
      "map amount (expenses (snd (put_update_expense scenario_A ''2'' (Some ''1'')
              (Some ''2024-05-02'') (Some ''flat'') (Some ''21'') (Some ''online'') (Some ''rent''))))
            = map (\<lambda>e. if owned_expense ''2'' (parseInt (the (Some ''1''))) e then r else amount e)
                (expenses scenario_A)"
    by blast
  from r(1) have r21: "r = 21"
    by (simp add: b)
  have "map (\<lambda>e. if owned_expense ''2'' (parseInt (the (Some ''1''))) e then r else amount e)
          (expenses scenario_A) = [10, 21, 7]"
    by (simp add: r21 parseInt_1 scenario_A_def own) (simp add: example_defs)
  with r(2) have 2: "map amount (expenses (snd (put_update_expense scenario_A ''2'' (Some ''1'')
              (Some ''2024-05-02'') (Some ''flat'') (Some ''21'') (Some ''online'') (Some ''rent''))))
            = [10, 21, 7]"
    by simp
  have 3: "map amount (expenses scenario_A) = [10, 20, 7]"
    by (simp add: scenario_A_def example_defs)
  from a c c2 1 2 3 show ?thesis by simp
qed

subsection \<open>Registration and login\<close>

text \<open>
  With a password that is a string, a login with both fields filled fails with one
  and the same 401 response whether no account matches the username or the stored
  hash does not verify the password. The password reaches the decision only through
  \<open>compare\<close>.
\<close>

lemma login_failure_is_generic_for_strings:
  assumes "\<not> falsy_value username_b" and "p \<noteq> []"
  shows "(filter (\<lambda>u. coll (username u) username_b) (register d) = []
            \<longrightarrow> post_login coll compare d username_b (JString p)
                  = error_response 401 ''Incorrect username / password!'')
       \<and> (\<forall>account others.
             filter (\<lambda>u. coll (username u) username_b) (register d) = account # others
             \<longrightarrow> (\<not> compare p (password account)
                    \<longrightarrow> post_login coll compare d username_b (JString p)
                          = error_response 401 ''Incorrect username / password!'')
               \<and> (compare p (password account)
                    \<longrightarrow> code (post_login coll compare d username_b (JString p)) = 200))"
  using assms by (simp add: post_login_def falsy_value_def)

text \<open>
  C8 at a failing input. The JSON body \<open>{"username": "ann", "password": 123}\<close>, where
  \<open>ann\<close> is registered, is answered with 500 and the message of \<open>bcrypt.compare\<close>;
  the same body with the unknown username \<open>zed\<close> is answered with the 401 of a failed
  login. The two failures differ, and the difference tells whether the username
  exists.
\<close>

theorem login_number_password_failing_input:
  "post_login same_text toy_compare users_only (JString ''ann'') (JNumber (Num 123))
     = error_response 500 ''Login failed: Illegal arguments: number, string''
   \<and> post_login same_text toy_compare users_only (JString ''zed'') (JNumber (Num 123))
     = error_response 401 ''Incorrect username / password!''"
  by (simp add: post_login_def falsy_value_def same_text_def typeof_def users_only_def
        ann_def bob_def)

text \<open>
  C9. A registration request with its three fields filled whose username or email
  is already in the user table is answered with 409 and inserts no row, whatever the
  email and the username look like: the lookup comes before the two format checks.
\<close>

theorem register_conflict_before_format_checks:
  assumes "\<not> falsy username_b" and "\<not> falsy email_b" and "\<not> falsy password_b"
    and "\<exists>u \<in> set (register d). coll (username u) (the username_b) \<or> coll (email u) (the email_b)"
  shows "post_register coll hash d username_b email_b password_b
       = (error_response 409 ''Account already exists with that username or email!'', d)"
proof -
  have "filter (\<lambda>u. coll (username u) (the username_b) \<or> coll (email u) (the email_b)) (register d)
          \<noteq> []"
    using assms(4) by (simp add: filter_empty_conv)
  then show ?thesis
    using assms(1-3) by (simp add: post_register_def)
qed

theorem register_conflict_before_format_checks_witness:
  "\<not> email_regex ''not-an-email''
   \<and> post_register (=) toy_hash users_only (Some ''ann'') (Some ''not-an-email'') (Some ''secret'')
     = (error_response 409 ''Account already exists with that username or email!'', users_only)"
proof -
  have e: "\<not> email_regex ''not-an-email''"
    by (simp add: email_regex_def)
  have f: "\<not> falsy (Some ''ann'')" "\<not> falsy (Some ''not-an-email'')" "\<not> falsy (Some ''secret'')"
    by (simp_all add: falsy_def)
  have x: "\<exists>u \<in> set (register users_only).
             username u = the (Some ''ann'') \<or> email u = the (Some ''not-an-email'')"
    by (simp add: users_only_def example_defs)
  from register_conflict_before_format_checks [OF f x, of toy_hash] e
  show ?thesis by simp
qed

end
